theory Spec2Isabelle
  imports Complex_Main
begin

section \<open>Python strings\<close>

text \<open>
  A Python \<open>str\<close> is modelled as a \<open>string\<close>. Case conversion is the ASCII part of
  \<open>str.lower\<close> and \<open>str.title\<close>: the letters \<open>A\<close>..\<open>Z\<close> and \<open>a\<close>..\<open>z\<close> are the
  cased characters, every other character is uncased and left as it is.
\<close>

definition ascii_uppercase :: string where
  "ascii_uppercase = ''ABCDEFGHIJKLMNOPQRSTUVWXYZ''"

definition ascii_lowercase :: string where
  "ascii_lowercase = ''abcdefghijklmnopqrstuvwxyz''"

definition isupper :: "char \<Rightarrow> bool" where
  "isupper c = (c \<in> set ascii_uppercase)"

definition islower :: "char \<Rightarrow> bool" where
  "islower c = (c \<in> set ascii_lowercase)"

definition lower_char :: "char \<Rightarrow> char" where
  "lower_char c = (case map_of (zip ascii_uppercase ascii_lowercase) c of
                     Some l \<Rightarrow> l | None \<Rightarrow> c)"

definition upper_char :: "char \<Rightarrow> char" where
  "upper_char c = (case map_of (zip ascii_lowercase ascii_uppercase) c of
                     Some u \<Rightarrow> u | None \<Rightarrow> c)"

text \<open>\<open>s.lower()\<close>\<close>

definition lower :: "string \<Rightarrow> string" where
  "lower s = map lower_char s"

text \<open>
  \<open>s.title()\<close>: a cased character that follows an uncased one (or starts the string) is
  upper-cased, a cased character that follows a cased one is lower-cased. The flag is
  Python's \<open>previous_is_cased\<close>.
\<close>

fun title_from :: "bool \<Rightarrow> string \<Rightarrow> string" where
  "title_from previous_is_cased [] = []"
| "title_from previous_is_cased (c # cs) =
     (if islower c then
        (if previous_is_cased then c else upper_char c) # title_from True cs
      else if isupper c then
        (if previous_is_cased then lower_char c else c) # title_from True cs
      else c # title_from False cs)"

definition title :: "string \<Rightarrow> string" where
  "title s = title_from False s"

text \<open>\<open>s.startswith(k)\<close> and the substring test \<open>k in s\<close>.\<close>

fun startswith :: "string \<Rightarrow> string \<Rightarrow> bool" where
  "startswith s [] = True"
| "startswith [] (k # ks) = False"
| "startswith (c # cs) (k # ks) = (c = k \<and> startswith cs ks)"

fun contains :: "string \<Rightarrow> string \<Rightarrow> bool" where
  "contains k [] = (k = [])"
| "contains k (c # cs) = (startswith (c # cs) k \<or> contains k cs)"

text \<open>\<open>sep.join(xs)\<close>\<close>

fun join :: "string \<Rightarrow> string list \<Rightarrow> string" where
  "join sep [] = []"
| "join sep [x] = x"
| "join sep (x # y # ys) = x @ sep @ join sep (y # ys)"

definition newline :: string where
  "newline = [CHR 0x0A]"

text \<open>The bullet character U+2022, as its three UTF-8 bytes.\<close>

definition bullet :: string where
  "bullet = [CHR 0xE2, CHR 0x80, CHR 0xA2]"

text \<open>\<open>str(x)\<close> of a value that may be \<open>None\<close>, as an f-string renders it.\<close>

definition str_opt :: "string option \<Rightarrow> string" where
  "str_opt v = (case v of None \<Rightarrow> ''None'' | Some s \<Rightarrow> s)"

text \<open>Truthiness of an optional string: neither \<open>None\<close> nor empty.\<close>

definition truthy_str :: "string option \<Rightarrow> bool" where
  "truthy_str v = (case v of None \<Rightarrow> False | Some s \<Rightarrow> s \<noteq> [])"


section \<open>Number formatting\<close>

text \<open>
  A finite Python \<open>float\<close> is modelled by its exact value, a rational number. The format
  specifications \<open>,.0f\<close> and \<open>.2f\<close> round that exact value to the nearest decimal with
  ties to even, print the sign of a negative number, and (for \<open>,\<close>) group the integer
  digits in threes. Infinities, NaN and the sign of zero are not represented.
\<close>

definition digit_char :: "nat \<Rightarrow> char" where
  "digit_char d = ''0123456789'' ! (d mod 10)"

fun str_nat :: "nat \<Rightarrow> string" where
  "str_nat n = (if n < 10 then [digit_char n] else str_nat (n div 10) @ [digit_char (n mod 10)])"

fun group_thousands :: "string \<Rightarrow> string" where
  "group_thousands ds =
     (if length ds \<le> 3 then ds
      else group_thousands (take (length ds - 3) ds) @ '','' @ drop (length ds - 3) ds)"

definition round_half_even :: "rat \<Rightarrow> int" where
  "round_half_even r =
     (let f = \<lfloor>r\<rfloor>; d = r - of_int f in
      if d < 1 / 2 then f
      else if 1 / 2 < d then f + 1
      else if even f then f else f + 1)"

definition sign_str :: "rat \<Rightarrow> string" where
  "sign_str r = (if r < 0 then ''-'' else [])"

text \<open>\<open>f"{x:,.0f}"\<close>\<close>

definition format_comma_0f :: "rat \<Rightarrow> string" where
  "format_comma_0f x = sign_str x @ group_thousands (str_nat (nat (round_half_even \<bar>x\<bar>)))"

text \<open>\<open>f"{x:.2f}"\<close>\<close>

definition format_2f :: "rat \<Rightarrow> string" where
  "format_2f x =
     (let n = nat (round_half_even (\<bar>x\<bar> * 100)) in
      sign_str x @ str_nat (n div 100) @ ''.'' @
      [digit_char (n mod 100 div 10), digit_char (n mod 10)])"

text \<open>Truthiness of an optional number: neither \<open>None\<close> nor zero.\<close>

definition truthy_num :: "rat option \<Rightarrow> bool" where
  "truthy_num v = (case v of None \<Rightarrow> False | Some x \<Rightarrow> x \<noteq> 0)"


section \<open>Data model\<close>

subsection \<open>The schema \<open>Property\<close> of \<open>schemas.py\<close>\<close>

datatype category = land | residential | commercial | development | hospitality

datatype development_type = high_rise | mid_rise | low_rise

datatype commercial_type = plaza | office | medical | industrial

datatype hospitality_type = hotel | apartment | retirement

datatype status = available | leased | sold | under_development

text \<open>The string each \<open>Literal\<close> value is.\<close>

fun category_str :: "category \<Rightarrow> string" where
  "category_str land = ''land''"
| "category_str residential = ''residential''"
| "category_str commercial = ''commercial''"
| "category_str development = ''development''"
| "category_str hospitality = ''hospitality''"

fun development_type_str :: "development_type \<Rightarrow> string" where
  "development_type_str high_rise = ''high rise''"
| "development_type_str mid_rise = ''mid rise''"
| "development_type_str low_rise = ''low rise''"

fun commercial_type_str :: "commercial_type \<Rightarrow> string" where
  "commercial_type_str plaza = ''plaza''"
| "commercial_type_str office = ''office''"
| "commercial_type_str medical = ''medical''"
| "commercial_type_str industrial = ''industrial''"

fun hospitality_type_str :: "hospitality_type \<Rightarrow> string" where
  "hospitality_type_str hotel = ''hotel''"
| "hospitality_type_str apartment = ''apartment''"
| "hospitality_type_str retirement = ''retirement''"

fun status_str :: "status \<Rightarrow> string" where
  "status_str available = ''available''"
| "status_str leased = ''leased''"
| "status_str sold = ''sold''"
| "status_str under_development = ''under development''"

record Property =
  name :: string
  slug :: string
  summary :: string
  description :: string
  address :: string
  city :: string
  province :: string
  country :: string
  images :: "string list"
  category :: category
  development_type :: "development_type option"
  commercial_type :: "commercial_type option"
  hospitality_type :: "hospitality_type option"
  size_sqft :: "rat option"
  lot_acres :: "rat option"
  year_built :: "int option"
  status :: status
  price :: "rat option"
  highlights :: "string list"
  coordinates :: "(rat \<times> rat) option"

subsection \<open>Stored documents\<close>

text \<open>
  A document of the collection \<open>property\<close> is a Python dict. Field \<open>doc_k\<close> is the value
  of \<open>doc.get("k")\<close>: \<open>None\<close> when the key is absent or holds \<open>None\<close>. The string fields
  are free strings here, since the endpoints read them from the store without passing
  them through the schema again.
\<close>

record document =
  doc_name :: "string option"
  doc_slug :: "string option"
  doc_summary :: "string option"
  doc_description :: "string option"
  doc_address :: "string option"
  doc_city :: "string option"
  doc_province :: "string option"
  doc_country :: "string option"
  doc_images :: "string list option"
  doc_category :: "string option"
  doc_development_type :: "string option"
  doc_commercial_type :: "string option"
  doc_hospitality_type :: "string option"
  doc_size_sqft :: "rat option"
  doc_lot_acres :: "rat option"
  doc_year_built :: "int option"
  doc_status :: "string option"
  doc_price :: "rat option"
  doc_highlights :: "string list option"
  doc_coordinates :: "(rat \<times> rat) option"

text \<open>
  The store's own id of a document. It is opaque; the model numbers the documents in
  the order of insertion and \<open>str\<close> gives the number in decimal.
\<close>

datatype object_id = ObjectId nat

fun str_object_id :: "object_id \<Rightarrow> string" where
  "str_object_id (ObjectId n) = str_nat n"

text \<open>A document as the store returns it, under its key \<open>_id\<close>.\<close>

record stored_document =
  stored_id :: object_id
  stored_fields :: document

text \<open>A document as the API returns it: \<open>_id\<close> popped, \<open>id\<close> set to its string.\<close>

record listing_json =
  json_id :: string
  json_fields :: document

record store =
  docs :: "stored_document list"
  next_id :: nat

datatype http_exception = HTTPException nat string


section \<open>The record store\<close>

text \<open>\<open>db["property"].find_one({"slug": slug})\<close>: the first document with that slug.\<close>

definition find_one_slug :: "store \<Rightarrow> string \<Rightarrow> stored_document option" where
  "find_one_slug db s = find (\<lambda>d. doc_slug (stored_fields d) = Some s) (docs db)"

text \<open>\<open>db["property"].count_documents({})\<close>\<close>

definition count_documents :: "store \<Rightarrow> nat" where
  "count_documents db = length (docs db)"

text \<open>
  Modelled from the spec: the serialisation of a \<open>Property\<close> into a document, done
  inside \<open>create_document\<close> of the module \<open>database\<close>, which is not among the sources.
  Every schema field keeps its value; a \<open>Literal\<close> becomes its string.
\<close>

definition model_dump :: "Property \<Rightarrow> document" where
  "model_dump p =
     \<lparr> doc_name = Some (name p), doc_slug = Some (slug p), doc_summary = Some (summary p),
       doc_description = Some (description p), doc_address = Some (address p),
       doc_city = Some (city p), doc_province = Some (province p),
       doc_country = Some (country p), doc_images = Some (images p),
       doc_category = Some (category_str (category p)),
       doc_development_type = map_option development_type_str (development_type p),
       doc_commercial_type = map_option commercial_type_str (commercial_type p),
       doc_hospitality_type = map_option hospitality_type_str (hospitality_type p),
       doc_size_sqft = size_sqft p, doc_lot_acres = lot_acres p,
       doc_year_built = year_built p, doc_status = Some (status_str (status p)),
       doc_price = price p, doc_highlights = Some (highlights p),
       doc_coordinates = coordinates p \<rparr>"

text \<open>
  Modelled from the spec: \<open>create_document\<close> of the module \<open>database\<close>, which is not among
  the sources. The spec gives it as the store's insert-one: the Listing is added to the
  collection under an id the store generates, and that id is returned as a string.
\<close>

definition create_document :: "store \<Rightarrow> Property \<Rightarrow> string \<times> store" where
  "create_document db p =
     (let oid = ObjectId (next_id db) in
      (str_object_id oid,
       \<lparr> docs = docs db @ [\<lparr> stored_id = oid, stored_fields = model_dump p \<rparr>],
         next_id = Suc (next_id db) \<rparr>))"

text \<open>The filter of a find: a dict from field names to the required values.\<close>

type_synonym query = "string \<rightharpoonup> string"

definition filter_keys :: "string list" where
  "filter_keys = [''category'', ''development_type'', ''commercial_type'',
                  ''hospitality_type'', ''city'', ''status'']"

fun doc_field :: "document \<Rightarrow> string \<Rightarrow> string option" where
  "doc_field d k =
     (if k = ''category'' then doc_category d
      else if k = ''development_type'' then doc_development_type d
      else if k = ''commercial_type'' then doc_commercial_type d
      else if k = ''hospitality_type'' then doc_hospitality_type d
      else if k = ''city'' then doc_city d
      else if k = ''status'' then doc_status d
      else None)"

text \<open>
  Modelled from the spec: \<open>get_documents\<close> of the module \<open>database\<close>, which is not among
  the sources. The spec gives it as an exact-match find: each key of the filter requires
  its value, a key that is not set imposes nothing, and at most \<open>limit\<close> documents are
  returned, in the order of the store.
\<close>

definition matches :: "query \<Rightarrow> stored_document \<Rightarrow> bool" where
  "matches q d =
     list_all (\<lambda>k. case q k of None \<Rightarrow> True
                              | Some v \<Rightarrow> doc_field (stored_fields d) k = Some v) filter_keys"

definition get_documents :: "store \<Rightarrow> query \<Rightarrow> int \<Rightarrow> stored_document list" where
  "get_documents db q limit = take (nat limit) (filter (matches q) (docs db))"


section \<open>The operations of \<open>main.py\<close>\<close>

subsection \<open>\<open>list_properties\<close>\<close>

text \<open>\<open>if v: query[k] = v\<close>\<close>

definition set_if_truthy :: "query \<Rightarrow> string \<Rightarrow> string option \<Rightarrow> query" where
  "set_if_truthy query k v =
     (case v of None \<Rightarrow> query
              | Some s \<Rightarrow> if s \<noteq> [] then query(k \<mapsto> s) else query)"

definition list_query ::
  "string option \<Rightarrow> string option \<Rightarrow> string option \<Rightarrow> string option \<Rightarrow>
   string option \<Rightarrow> string option \<Rightarrow> query" where
  "list_query category_arg development_type_arg commercial_type_arg hospitality_type_arg
              city_arg status_arg =
     (let query = Map.empty;
          query = set_if_truthy query ''category'' category_arg;
          query = set_if_truthy query ''development_type'' development_type_arg;
          query = set_if_truthy query ''commercial_type'' commercial_type_arg;
          query = set_if_truthy query ''hospitality_type'' hospitality_type_arg;
          query = set_if_truthy query ''city'' city_arg;
          query = set_if_truthy query ''status'' status_arg
      in query)"

text \<open>\<open>p["id"] = str(p.pop("_id", ""))\<close>\<close>

definition with_id :: "stored_document \<Rightarrow> listing_json" where
  "with_id p = \<lparr> json_id = str_object_id (stored_id p), json_fields = stored_fields p \<rparr>"

definition list_properties ::
  "store \<Rightarrow> string option \<Rightarrow> string option \<Rightarrow> string option \<Rightarrow> string option \<Rightarrow>
   string option \<Rightarrow> string option \<Rightarrow> int \<Rightarrow> listing_json list" where
  "list_properties db category_arg development_type_arg commercial_type_arg
                   hospitality_type_arg city_arg status_arg limit =
     (let query = list_query category_arg development_type_arg commercial_type_arg
                             hospitality_type_arg city_arg status_arg;
          props = get_documents db query limit
      in map with_id props)"

subsection \<open>\<open>get_property\<close>\<close>

definition get_property :: "store \<Rightarrow> string \<Rightarrow> http_exception + listing_json" where
  "get_property db slug_arg =
     (case find_one_slug db slug_arg of
        None \<Rightarrow> Inl (HTTPException 404 ''Property not found'')
      | Some doc \<Rightarrow> Inr (with_id doc))"

subsection \<open>\<open>create_property\<close>\<close>

text \<open>The result and the store after the call.\<close>

definition create_property :: "store \<Rightarrow> Property \<Rightarrow> (http_exception + string) \<times> store" where
  "create_property db payload =
     (case find_one_slug db (slug payload) of
        Some existing \<Rightarrow> (Inl (HTTPException 400 ''Slug already exists''), db)
      | None \<Rightarrow>
          (let (inserted_id, db') = create_document db payload
           in (Inr inserted_id, db')))"

subsection \<open>\<open>chat_about_property\<close>\<close>

definition all_keywords :: "string list" where
  "all_keywords = [''price'', ''cost'', ''listing'', ''size'', ''square'', ''sqft'',
                   ''zoning'', ''use'', ''type'', ''status'', ''available'']"

text \<open>\<open>v or ""\<close>\<close>

definition or_empty :: "string option \<Rightarrow> string" where
  "or_empty v = (case v of None \<Rightarrow> [] | Some s \<Rightarrow> s)"

text \<open>\<open>if v: parts.append(v.title())\<close>\<close>

definition append_title :: "string list \<Rightarrow> string option \<Rightarrow> string list" where
  "append_title parts v =
     (case v of None \<Rightarrow> parts
              | Some s \<Rightarrow> if s \<noteq> [] then parts @ [title s] else parts)"

text \<open>\<open>doc.get("highlights", [])\<close>, read as a list: \<open>None\<close> is as falsy as \<open>[]\<close>.\<close>

definition doc_highlights_or_empty :: "document \<Rightarrow> string list" where
  "doc_highlights_or_empty doc = (case doc_highlights doc of None \<Rightarrow> [] | Some hs \<Rightarrow> hs)"

text \<open>
  The responder builds the list \<open>lines\<close> append by append. Each \<open>if\<close> statement of the
  source is a function from the list before it to the list after it; \<open>q\<close> is the
  lower-cased question.
\<close>

text \<open>\<open>lines.append(f"You're asking about {name} in {city}. Here's what I can share:")\<close>\<close>

definition opening_block :: "document \<Rightarrow> string list \<Rightarrow> string list" where
  "opening_block doc lines =
     lines @ [''You're asking about '' @ str_opt (doc_name doc) @ '' in '' @
              str_opt (doc_city doc) @ ''. Here's what I can share:'']"

text \<open>\<open>if "price" in q or "cost" in q or "listing" in q: ...\<close>\<close>

definition price_block :: "document \<Rightarrow> string \<Rightarrow> string list \<Rightarrow> string list" where
  "price_block doc q lines =
     (if contains ''price'' q \<or> contains ''cost'' q \<or> contains ''listing'' q then
        (case doc_price doc of
           Some p \<Rightarrow> lines @ [''- Current guidance price is $'' @ format_comma_0f p @ ''.'']
         | None \<Rightarrow> lines @ [''- Pricing is available upon request.''])
      else lines)"

text \<open>\<open>if "size" in q or "square" in q or "sqft" in q: ...\<close>\<close>

definition size_block :: "document \<Rightarrow> string \<Rightarrow> string list \<Rightarrow> string list" where
  "size_block doc q lines =
     (if contains ''size'' q \<or> contains ''square'' q \<or> contains ''sqft'' q then
        (let lines = (if truthy_num (doc_size_sqft doc)
                      then lines @ [''- Interior size is approx. '' @
                                    format_comma_0f (the (doc_size_sqft doc)) @ '' sq ft.'']
                      else lines);
             lines = (if truthy_num (doc_lot_acres doc)
                      then lines @ [''- Lot size is approx. '' @
                                    format_2f (the (doc_lot_acres doc)) @ '' acres.'']
                      else lines)
         in lines)
      else lines)"

text \<open>\<open>if "zoning" in q or "use" in q or "type" in q: ...\<close>\<close>

definition zoning_block :: "document \<Rightarrow> string \<Rightarrow> string list \<Rightarrow> string list" where
  "zoning_block doc q lines =
     (if contains ''zoning'' q \<or> contains ''use'' q \<or> contains ''type'' q then
        (let parts = [];
             parts = append_title parts (doc_category doc);
             parts = append_title parts (doc_development_type doc);
             parts = append_title parts (doc_commercial_type doc);
             parts = append_title parts (doc_hospitality_type doc)
         in if parts \<noteq> [] then lines @ [''- Property type: '' @ join '', '' parts]
            else lines)
      else lines)"

text \<open>\<open>if "status" in q or "available" in q: ...\<close>\<close>

definition status_block :: "document \<Rightarrow> string \<Rightarrow> string list \<Rightarrow> string list" where
  "status_block doc q lines =
     (if contains ''status'' q \<or> contains ''available'' q then
        lines @ [''- Status: '' @
                 (if truthy_str (doc_status doc) then title (the (doc_status doc))
                  else ''Available'')]
      else lines)"

text \<open>\<open>if not any(keyword in q for keyword in [...]): ...\<close>\<close>

definition overview_block :: "document \<Rightarrow> string \<Rightarrow> string list \<Rightarrow> string list" where
  "overview_block doc q lines =
     (if list_ex (\<lambda>keyword. contains keyword q) all_keywords then lines
      else
        (let highlights_v = doc_highlights_or_empty doc;
             lines = (if highlights_v \<noteq> []
                      then (lines @ [''Key highlights:'']) @
                           map (\<lambda>h. ''  '' @ bullet @ '' '' @ h) (take 5 highlights_v)
                      else lines);
             lines = (if highlights_v = []
                      then lines @ [''Let me know if you'd like details on price, size, zoning, or availability.'']
                      else lines)
         in lines))"

definition chat_lines :: "document \<Rightarrow> string option \<Rightarrow> string list" where
  "chat_lines doc message =
     (let q = lower (or_empty message);
          lines = [];
          lines = opening_block doc lines;
          lines = price_block doc q lines;
          lines = size_block doc q lines;
          lines = zoning_block doc q lines;
          lines = status_block doc q lines;
          lines = overview_block doc q lines
      in lines)"

text \<open>\<open>answer = "\n".join(lines)\<close>\<close>

definition chat_reply :: "document \<Rightarrow> string option \<Rightarrow> string" where
  "chat_reply doc message = join newline (chat_lines doc message)"

definition chat_about_property ::
  "store \<Rightarrow> string \<Rightarrow> string option \<Rightarrow> http_exception + string" where
  "chat_about_property db slug_arg message =
     (case find_one_slug db slug_arg of
        None \<Rightarrow> Inl (HTTPException 404 ''Property not found'')
      | Some doc \<Rightarrow> Inr (chat_reply (stored_fields doc) message))"

subsection \<open>\<open>seed_demo\<close>\<close>

text \<open>
  The four literal samples. A float literal stands for its exact binary value:
  \<open>2.2\<close> is \<open>2476979795053773 / 2^50\<close>.
\<close>

definition isherwood_plaza :: Property where
  "isherwood_plaza =
     \<lparr> name = ''Isherwood Plaza'', slug = ''isherwood-plaza'',
       summary = ''Modern retail plaza with excellent frontage'',
       description = ''A high-visibility retail plaza with ample parking and strong tenant mix.'',
       address = ''123 Main St'', city = ''Cambridge'', province = ''ON'',
       country = ''Canada'', images = [], category = commercial,
       development_type = None, commercial_type = Some plaza, hospitality_type = None,
       size_sqft = Some 45000, lot_acres = Some (7 / 2), year_built = Some 2010,
       status = available, price = Some 12500000,
       highlights = [''Prime corner exposure'', ''Ample surface parking'',
                     ''Strong traffic counts''],
       coordinates = None \<rparr>"

definition riverside_towers :: Property where
  "riverside_towers =
     \<lparr> name = ''Riverside Towers'', slug = ''riverside-towers'',
       summary = ''Waterfront high-rise residential development'',
       description = ''Proposed twin-tower high rise with panoramic river views.'',
       address = ''500 Riverside Dr'', city = ''Kitchener'', province = ''ON'',
       country = ''Canada'', images = [], category = development,
       development_type = Some high_rise, commercial_type = None, hospitality_type = None,
       size_sqft = None, lot_acres = Some (2476979795053773 / 1125899906842624),
       year_built = None, status = under_development, price = None,
       highlights = [''Waterfront location'', ''Transit adjacent'', ''Zoning in progress''],
       coordinates = None \<rparr>"

definition isherwood_industrial_park :: Property where
  "isherwood_industrial_park =
     \<lparr> name = ''Isherwood Industrial Park'', slug = ''isherwood-industrial-park'',
       summary = ''Modern industrial bays with clear heights'',
       description = ''Flex industrial with loading docks and ample marshalling.'',
       address = ''200 Industry Rd'', city = ''Guelph'', province = ''ON'',
       country = ''Canada'', images = [], category = commercial,
       development_type = None, commercial_type = Some industrial, hospitality_type = None,
       size_sqft = Some 120000, lot_acres = Some 8, year_built = None,
       status = available, price = Some 28900000,
       highlights = [''32' clear height'', ''ESFR sprinklers'', ''Multiple dock doors''],
       coordinates = None \<rparr>"

definition grandview_retirement_residence :: Property where
  "grandview_retirement_residence =
     \<lparr> name = ''Grandview Retirement Residence'', slug = ''grandview-retirement-residence'',
       summary = ''Thoughtfully designed retirement community'',
       description = ''A full-service retirement home with wellness amenities.'',
       address = ''88 Grandview Ave'', city = ''Waterloo'', province = ''ON'',
       country = ''Canada'', images = [], category = hospitality,
       development_type = None, commercial_type = None, hospitality_type = Some retirement,
       size_sqft = None, lot_acres = None, year_built = None,
       status = available, price = None,
       highlights = [''On-site healthcare'', ''Chef-led dining'', ''Landscaped courtyards''],
       coordinates = None \<rparr>"

definition samples :: "Property list" where
  "samples = [isherwood_plaza, riverside_towers, isherwood_industrial_park,
              grandview_retirement_residence]"

text \<open>\<open>for p in samples: create_document("property", p)\<close>\<close>

fun create_all :: "store \<Rightarrow> Property list \<Rightarrow> store" where
  "create_all db [] = db"
| "create_all db (p # ps) = create_all (snd (create_document db p)) ps"

text \<open>The message and count returned, and the store after the call.\<close>

definition seed_demo :: "store \<Rightarrow> (string \<times> nat) \<times> store" where
  "seed_demo db =
     (let count = count_documents db in
      if count > 0 then ((''Collection already seeded'', count), db)
      else ((''Seeded demo properties'', length samples), create_all db samples))"


section \<open>The responder, topic by topic\<close>

text \<open>
  The lines each topic block appends once its keyword test has passed, and the keyword
  tests themselves. They only name parts of \<open>chat_lines\<close>; lemma \<open>chat_lines_blocks\<close>
  below shows that \<open>chat_lines\<close> is their concatenation in the order of the source.
\<close>

definition opening_line :: "document \<Rightarrow> string" where
  "opening_line doc = ''You're asking about '' @ str_opt (doc_name doc) @ '' in '' @
                      str_opt (doc_city doc) @ ''. Here's what I can share:''"

definition price_topic :: "string \<Rightarrow> bool" where
  "price_topic q = (contains ''price'' q \<or> contains ''cost'' q \<or> contains ''listing'' q)"

definition size_topic :: "string \<Rightarrow> bool" where
  "size_topic q = (contains ''size'' q \<or> contains ''square'' q \<or> contains ''sqft'' q)"

definition zoning_topic :: "string \<Rightarrow> bool" where
  "zoning_topic q = (contains ''zoning'' q \<or> contains ''use'' q \<or> contains ''type'' q)"

definition status_topic :: "string \<Rightarrow> bool" where
  "status_topic q = (contains ''status'' q \<or> contains ''available'' q)"

definition any_keyword :: "string \<Rightarrow> bool" where
  "any_keyword q = list_ex (\<lambda>keyword. contains keyword q) all_keywords"

definition price_lines :: "document \<Rightarrow> string list" where
  "price_lines doc =
     (case doc_price doc of
        Some p \<Rightarrow> [''- Current guidance price is $'' @ format_comma_0f p @ ''.'']
      | None \<Rightarrow> [''- Pricing is available upon request.''])"

definition size_lines :: "document \<Rightarrow> string list" where
  "size_lines doc =
     (if truthy_num (doc_size_sqft doc)
      then [''- Interior size is approx. '' @ format_comma_0f (the (doc_size_sqft doc)) @
            '' sq ft.'']
      else []) @
     (if truthy_num (doc_lot_acres doc)
      then [''- Lot size is approx. '' @ format_2f (the (doc_lot_acres doc)) @ '' acres.'']
      else [])"

definition zoning_parts :: "document \<Rightarrow> string list" where
  "zoning_parts doc =
     append_title (append_title (append_title (append_title [] (doc_category doc))
       (doc_development_type doc)) (doc_commercial_type doc)) (doc_hospitality_type doc)"

definition zoning_lines :: "document \<Rightarrow> string list" where
  "zoning_lines doc =
     (if zoning_parts doc \<noteq> [] then [''- Property type: '' @ join '', '' (zoning_parts doc)]
      else [])"

definition status_lines :: "document \<Rightarrow> string list" where
  "status_lines doc =
     [''- Status: '' @ (if truthy_str (doc_status doc) then title (the (doc_status doc))
                        else ''Available'')]"

definition overview_lines :: "document \<Rightarrow> string list" where
  "overview_lines doc =
     (if doc_highlights_or_empty doc \<noteq> []
      then ''Key highlights:'' #
           map (\<lambda>h. ''  '' @ bullet @ '' '' @ h) (take 5 (doc_highlights_or_empty doc))
      else [''Let me know if you'd like details on price, size, zoning, or availability.''])"

text \<open>The characters Python's \<open>str.isspace\<close> accepts among the ASCII ones.\<close>

definition whitespace :: "char list" where
  "whitespace = [CHR 0x20, CHR 0x09, CHR 0x0A, CHR 0x0B, CHR 0x0C, CHR 0x0D,
                 CHR 0x1C, CHR 0x1D, CHR 0x1E, CHR 0x1F]"

section \<open>Sample states of the store\<close>

text \<open>
  An empty store, and two stores that hold the sample Grandview Retirement Residence
  under different ids and next to different documents.
\<close>

definition empty_store :: store where
  "empty_store = \<lparr> docs = [], next_id = 0 \<rparr>"

definition store_a :: store where
  "store_a = \<lparr> docs = [\<lparr> stored_id = ObjectId 0,
                          stored_fields = model_dump grandview_retirement_residence \<rparr>],
               next_id = 1 \<rparr>"

definition store_b :: store where
  "store_b = \<lparr> docs = [\<lparr> stored_id = ObjectId 3, stored_fields = model_dump isherwood_plaza \<rparr>,
                      \<lparr> stored_id = ObjectId 7,
                        stored_fields = model_dump grandview_retirement_residence \<rparr>],
               next_id = 8 \<rparr>"

section \<open>Lemmas about the string functions\<close>

lemma startswith_append: "startswith (k @ r) k"
  by (induction k) simp_all

lemma startswith_iff: "startswith s k \<longleftrightarrow> (\<exists>r. s = k @ r)"
proof (induction s k rule: startswith.induct)
  case (1 s)
  then show ?case by simp
next
  case (2 k ks)
  then show ?case by simp
next
  case (3 c cs k ks)
  then show ?case by auto
qed

lemma contains_set: "contains k s \<Longrightarrow> set k \<subseteq> set s"
proof (induction s)
  case Nil
  then show ?case by simp
next
  case (Cons c cs)
  from Cons.prems have "startswith (c # cs) k \<or> contains k cs" by simp
  then show ?case
  proof
    assume "startswith (c # cs) k"
    then obtain r where "c # cs = k @ r" using startswith_iff by blast
    then have "set k \<subseteq> set (c # cs)" by (metis set_append Un_upper1)
    then show ?thesis .
  next
    assume "contains k cs"
    then have "set k \<subseteq> set cs" by (rule Cons.IH)
    then show ?thesis by auto
  qed
qed

lemma join_Cons: "join sep (x # xs) = x @ (if xs = [] then [] else sep @ join sep xs)"
  by (cases xs) simp_all

lemma lower_char_whitespace_all: "list_all (\<lambda>c. lower_char c = c) whitespace"
  by (simp add: whitespace_def lower_char_def ascii_uppercase_def ascii_lowercase_def)

lemma lower_char_whitespace: "c \<in> set whitespace \<Longrightarrow> lower_char c = c"
  using lower_char_whitespace_all by (simp add: list_all_iff)

lemma lower_whitespace: "set m \<subseteq> set whitespace \<Longrightarrow> set (lower m) \<subseteq> set whitespace"
  using lower_char_whitespace by (auto simp: lower_def)

lemma find_slug_None:
  "find_one_slug db s = None \<longleftrightarrow> (\<forall>d \<in> set (docs db). doc_slug (stored_fields d) \<noteq> Some s)"
  by (auto simp: find_one_slug_def find_None_iff)

lemma find_slug_Some:
  "find_one_slug db s = Some d \<Longrightarrow> d \<in> set (docs db) \<and> doc_slug (stored_fields d) = Some s"
  by (auto simp: find_one_slug_def find_Some_iff)

section \<open>The responder as a concatenation of topic blocks\<close>

lemma opening_block_eq: "opening_block doc lines = lines @ [opening_line doc]"
  by (simp add: opening_block_def opening_line_def)

lemma price_block_eq:
  "price_block doc q lines = lines @ (if price_topic q then price_lines doc else [])"
  by (simp add: price_block_def price_topic_def price_lines_def split: option.split)

lemma size_block_eq:
  "size_block doc q lines = lines @ (if size_topic q then size_lines doc else [])"
  by (simp add: size_block_def size_topic_def size_lines_def Let_def)

lemma zoning_block_eq:
  "zoning_block doc q lines = lines @ (if zoning_topic q then zoning_lines doc else [])"
  by (simp add: zoning_block_def zoning_topic_def zoning_lines_def zoning_parts_def Let_def)

lemma status_block_eq:
  "status_block doc q lines = lines @ (if status_topic q then status_lines doc else [])"
  by (simp add: status_block_def status_topic_def status_lines_def)

lemma overview_block_eq:
  "overview_block doc q lines = lines @ (if any_keyword q then [] else overview_lines doc)"
  by (simp add: overview_block_def any_keyword_def overview_lines_def Let_def)

lemma chat_lines_blocks:
  "chat_lines doc message =
     opening_line doc #
     (if price_topic (lower (or_empty message)) then price_lines doc else []) @
     (if size_topic (lower (or_empty message)) then size_lines doc else []) @
     (if zoning_topic (lower (or_empty message)) then zoning_lines doc else []) @
     (if status_topic (lower (or_empty message)) then status_lines doc else []) @
     (if any_keyword (lower (or_empty message)) then [] else overview_lines doc)"
  unfolding chat_lines_def Let_def
  by (simp only: opening_block_eq price_block_eq size_block_eq zoning_block_eq
        status_block_eq overview_block_eq append_Nil append_Cons append_assoc)

lemma any_keyword_iff:
  "any_keyword q \<longleftrightarrow> price_topic q \<or> size_topic q \<or> zoning_topic q \<or> status_topic q"
  by (auto simp: any_keyword_def all_keywords_def price_topic_def size_topic_def
        zoning_topic_def status_topic_def)

lemma whitespace_no_keyword:
  assumes "set q \<subseteq> set whitespace"
  shows "\<not> any_keyword q"
proof
  assume "any_keyword q"
  then obtain k where k: "k \<in> set all_keywords" and c: "contains k q"
    by (auto simp: any_keyword_def list_ex_iff)
  from c have "set k \<subseteq> set q" by (rule contains_set)
  with assms have "set k \<subseteq> set whitespace" by simp
  with k show False
    by (auto simp: all_keywords_def whitespace_def)
qed







section \<open>Evaluation on the sample data\<close>









lemma grandview_fields:
  "doc_name (model_dump grandview_retirement_residence) = Some ''Grandview Retirement Residence''"
  "doc_city (model_dump grandview_retirement_residence) = Some ''Waterloo''"
  "doc_slug (model_dump grandview_retirement_residence) = Some ''grandview-retirement-residence''"
  "doc_price (model_dump grandview_retirement_residence) = None"
  "doc_size_sqft (model_dump grandview_retirement_residence) = None"
  "doc_lot_acres (model_dump grandview_retirement_residence) = None"
  "doc_highlights (model_dump grandview_retirement_residence) =
     Some [''On-site healthcare'', ''Chef-led dining'', ''Landscaped courtyards'']"
  by (simp_all add: model_dump_def grandview_retirement_residence_def)

lemma isherwood_plaza_slug: "doc_slug (model_dump isherwood_plaza) = Some ''isherwood-plaza''"
  by (simp add: model_dump_def isherwood_plaza_def)

lemma grandview_slug: "slug grandview_retirement_residence = ''grandview-retirement-residence''"
  by (simp add: grandview_retirement_residence_def)




section \<open>The responder\<close>


















text \<open>
  C8. The answer is a function of the document found and the question alone: two
  evaluations, in any two states of the store that hold the same document fields under
  the looked-up slugs, give the same answer, which is the join of the responder's lines.
\<close>

theorem chat_deterministic:
  assumes "find_one_slug db1 slug1 = Some d1"
    and "find_one_slug db2 slug2 = Some d2"
    and "stored_fields d1 = stored_fields d2"
  shows "chat_about_property db1 slug1 message = chat_about_property db2 slug2 message \<and>
         chat_about_property db1 slug1 message =
           Inr (join newline (chat_lines (stored_fields d1) message))"
  using assms by (simp add: chat_about_property_def chat_reply_def)

lemma find_store_a:
  "find_one_slug store_a ''grandview-retirement-residence'' =
     Some \<lparr> stored_id = ObjectId 0,
            stored_fields = model_dump grandview_retirement_residence \<rparr>"
  by (simp add: find_one_slug_def store_a_def grandview_fields)

lemma find_store_b:
  "find_one_slug store_b ''grandview-retirement-residence'' =
     Some \<lparr> stored_id = ObjectId 7,
            stored_fields = model_dump grandview_retirement_residence \<rparr>"
  by (simp add: find_one_slug_def store_b_def grandview_fields isherwood_plaza_slug)

theorem chat_deterministic_witness:
  "find_one_slug store_a ''grandview-retirement-residence'' =
     Some \<lparr> stored_id = ObjectId 0,
            stored_fields = model_dump grandview_retirement_residence \<rparr> \<and>
   find_one_slug store_b ''grandview-retirement-residence'' =
     Some \<lparr> stored_id = ObjectId 7,
            stored_fields = model_dump grandview_retirement_residence \<rparr> \<and>
   chat_about_property store_a ''grandview-retirement-residence'' (Some ''hi'') =
     chat_about_property store_b ''grandview-retirement-residence'' (Some ''hi'')"
proof -
  have "stored_fields \<lparr> stored_id = ObjectId 0,
            stored_fields = model_dump grandview_retirement_residence \<rparr> =
        stored_fields \<lparr> stored_id = ObjectId 7,
            stored_fields = model_dump grandview_retirement_residence \<rparr>"
    by simp
  from chat_deterministic [OF find_store_a find_store_b this, of "Some ''hi''"]
  show ?thesis using find_store_a find_store_b by blast
qed

text \<open>
  C9. For every document found and every question, the responder returns an answer, and
  the answer begins with the opening line that names the document's name and city. A
  question that is absent, empty or made of whitespace only contains no keyword, so the
  lines are the opening line and the overview.
\<close>

theorem chat_total:
  assumes "find_one_slug db slug_arg = Some stored"
  shows "(\<exists>rest. chat_about_property db slug_arg message =
            Inr ((''You're asking about '' @ str_opt (doc_name (stored_fields stored)) @
                  '' in '' @ str_opt (doc_city (stored_fields stored)) @
                  ''. Here's what I can share:'') @ rest)) \<and>
         (list_all (\<lambda>c. c \<in> set whitespace) (or_empty message) \<longrightarrow>
            chat_lines (stored_fields stored) message =
              (''You're asking about '' @ str_opt (doc_name (stored_fields stored)) @
               '' in '' @ str_opt (doc_city (stored_fields stored)) @
               ''. Here's what I can share:'') #
              (if doc_highlights_or_empty (stored_fields stored) \<noteq> []
               then ''Key highlights:'' #
                    map (\<lambda>h. ''  '' @ bullet @ '' '' @ h)
                      (take 5 (doc_highlights_or_empty (stored_fields stored)))
               else [''Let me know if you'd like details on price, size, zoning, or availability.'']))"
proof (intro conjI impI)
  let ?doc = "stored_fields stored"
  obtain ls where ls: "chat_lines ?doc message = opening_line ?doc # ls"
    by (simp add: chat_lines_blocks)
  have "chat_about_property db slug_arg message =
          Inr (opening_line ?doc @ (if ls = [] then [] else newline @ join newline ls))"
    using assms by (simp add: chat_about_property_def chat_reply_def ls join_Cons)
  then show "\<exists>rest. chat_about_property db slug_arg message =
            Inr ((''You're asking about '' @ str_opt (doc_name ?doc) @
                  '' in '' @ str_opt (doc_city ?doc) @
                  ''. Here's what I can share:'') @ rest)"
    unfolding opening_line_def by blast
next
  let ?doc = "stored_fields stored"
  let ?q = "lower (or_empty message)"
  assume "list_all (\<lambda>c. c \<in> set whitespace) (or_empty message)"
  then have "set (or_empty message) \<subseteq> set whitespace"
    by (auto simp: list_all_iff)
  then have "set ?q \<subseteq> set whitespace" by (rule lower_whitespace)
  then have a: "\<not> any_keyword ?q" by (rule whitespace_no_keyword)
  then have t: "\<not> price_topic ?q" "\<not> size_topic ?q" "\<not> zoning_topic ?q" "\<not> status_topic ?q"
    by (simp_all add: any_keyword_iff)
  show "chat_lines ?doc message =
              (''You're asking about '' @ str_opt (doc_name ?doc) @
               '' in '' @ str_opt (doc_city ?doc) @
               ''. Here's what I can share:'') #
              (if doc_highlights_or_empty ?doc \<noteq> []
               then ''Key highlights:'' #
                    map (\<lambda>h. ''  '' @ bullet @ '' '' @ h)
                      (take 5 (doc_highlights_or_empty ?doc))
               else [''Let me know if you'd like details on price, size, zoning, or availability.''])"
    using a t by (simp add: chat_lines_blocks opening_line_def overview_lines_def)
qed

theorem chat_total_witness:
  "find_one_slug store_a ''grandview-retirement-residence'' =
     Some \<lparr> stored_id = ObjectId 0,
            stored_fields = model_dump grandview_retirement_residence \<rparr> \<and>
   list_all (\<lambda>c. c \<in> set whitespace) (or_empty (Some ''   '')) \<and>
   chat_lines (model_dump grandview_retirement_residence) (Some ''   '') =
     [''You're asking about Grandview Retirement Residence in Waterloo. Here's what I can share:'',
      ''Key highlights:'',
      ''  '' @ bullet @ '' On-site healthcare'',
      ''  '' @ bullet @ '' Chef-led dining'',
      ''  '' @ bullet @ '' Landscaped courtyards'']"
proof -
  have w: "list_all (\<lambda>c. c \<in> set whitespace) (or_empty (Some ''   ''))"
    by (simp add: or_empty_def whitespace_def)
  from chat_total [OF find_store_a, of "Some ''   ''"] w
  have "chat_lines (model_dump grandview_retirement_residence) (Some ''   '') =
     [''You're asking about Grandview Retirement Residence in Waterloo. Here's what I can share:'',
      ''Key highlights:'',
      ''  '' @ bullet @ '' On-site healthcare'',
      ''  '' @ bullet @ '' Chef-led dining'',
      ''  '' @ bullet @ '' Landscaped courtyards'']"
    by (simp add: grandview_fields str_opt_def doc_highlights_or_empty_def)
  with w find_store_a show ?thesis by blast
qed


section \<open>The repository operations\<close>

text \<open>
  C6. A create request whose slug is the slug of a stored document fails with the HTTP
  error 400 "Slug already exists", and the store after the call is the store before it.
\<close>

theorem create_conflict:
  assumes "list_ex (\<lambda>d. doc_slug (stored_fields d) = Some (slug payload)) (docs db)"
  shows "create_property db payload = (Inl (HTTPException 400 ''Slug already exists''), db)"
proof -
  have "find_one_slug db (slug payload) \<noteq> None"
    using assms by (auto simp: find_slug_None list_ex_iff)
  then obtain existing where "find_one_slug db (slug payload) = Some existing" by blast
  then show ?thesis by (simp add: create_property_def)
qed

theorem create_conflict_witness:
  "list_ex (\<lambda>d. doc_slug (stored_fields d) = Some (slug grandview_retirement_residence))
     (docs store_b) \<and>
   create_property store_b grandview_retirement_residence =
     (Inl (HTTPException 400 ''Slug already exists''), store_b)"
proof -
  have h: "list_ex (\<lambda>d. doc_slug (stored_fields d) = Some (slug grandview_retirement_residence))
             (docs store_b)"
    by (simp add: store_b_def grandview_fields grandview_slug)
  from create_conflict [OF h] h show ?thesis by blast
qed

text \<open>
  C7. When no stored document has the slug, get-by-slug fails with the HTTP error 404
  "Property not found"; it succeeds exactly when some stored document has the slug, and
  the document it then returns is a stored document with that slug, its store id given
  as the string \<open>id\<close>.
\<close>

theorem get_property_by_slug:
  "(list_all (\<lambda>d. doc_slug (stored_fields d) \<noteq> Some s) (docs db) \<longrightarrow>
      get_property db s = Inl (HTTPException 404 ''Property not found'')) \<and>
   (list_ex (\<lambda>d. doc_slug (stored_fields d) = Some s) (docs db) \<longrightarrow>
      (\<exists>d. d \<in> set (docs db) \<and> doc_slug (stored_fields d) = Some s \<and>
           get_property db s =
             Inr \<lparr> json_id = str_object_id (stored_id d),
                   json_fields = stored_fields d \<rparr>))"
proof (intro conjI impI)
  assume "list_all (\<lambda>d. doc_slug (stored_fields d) \<noteq> Some s) (docs db)"
  then have "find_one_slug db s = None"
    by (simp add: find_slug_None list_all_iff)
  then show "get_property db s = Inl (HTTPException 404 ''Property not found'')"
    by (simp add: get_property_def)
next
  assume "list_ex (\<lambda>d. doc_slug (stored_fields d) = Some s) (docs db)"
  then have "find_one_slug db s \<noteq> None"
    by (auto simp: find_slug_None list_ex_iff)
  then obtain d where d: "find_one_slug db s = Some d" by blast
  then have "d \<in> set (docs db) \<and> doc_slug (stored_fields d) = Some s"
    by (rule find_slug_Some)
  moreover from d have "get_property db s =
      Inr \<lparr> json_id = str_object_id (stored_id d), json_fields = stored_fields d \<rparr>"
    by (simp add: get_property_def with_id_def)
  ultimately show "\<exists>d. d \<in> set (docs db) \<and> doc_slug (stored_fields d) = Some s \<and>
           get_property db s =
             Inr \<lparr> json_id = str_object_id (stored_id d),
                   json_fields = stored_fields d \<rparr>"
    by blast
qed

theorem get_property_by_slug_witness:
  "(list_all (\<lambda>d. doc_slug (stored_fields d) \<noteq> Some ''no-such-slug'') (docs store_b) \<and>
    get_property store_b ''no-such-slug'' = Inl (HTTPException 404 ''Property not found'')) \<and>
   (list_ex (\<lambda>d. doc_slug (stored_fields d) = Some ''grandview-retirement-residence'')
      (docs store_b) \<and>
    get_property store_b ''grandview-retirement-residence'' =
      Inr \<lparr> json_id = ''7'',
            json_fields = model_dump grandview_retirement_residence \<rparr>)"
proof -
  have n: "list_all (\<lambda>d. doc_slug (stored_fields d) \<noteq> Some ''no-such-slug'') (docs store_b)"
    by (simp add: store_b_def grandview_fields isherwood_plaza_slug)
  have e: "list_ex (\<lambda>d. doc_slug (stored_fields d) = Some ''grandview-retirement-residence'')
             (docs store_b)"
    by (simp add: store_b_def grandview_fields)
  from get_property_by_slug [of "''no-such-slug''" store_b] n
  have a: "get_property store_b ''no-such-slug'' =
             Inl (HTTPException 404 ''Property not found'')"
    by blast
  from get_property_by_slug [of "''grandview-retirement-residence''" store_b] e
  obtain d where d: "d \<in> set (docs store_b)"
    "doc_slug (stored_fields d) = Some ''grandview-retirement-residence''"
    "get_property store_b ''grandview-retirement-residence'' =
       Inr \<lparr> json_id = str_object_id (stored_id d), json_fields = stored_fields d \<rparr>"
    by blast
  from d(1,2) have "d = \<lparr> stored_id = ObjectId 7,
                         stored_fields = model_dump grandview_retirement_residence \<rparr>"
    by (auto simp: store_b_def isherwood_plaza_slug)
  with d(3) have "get_property store_b ''grandview-retirement-residence'' =
      Inr \<lparr> json_id = ''7'',
            json_fields = model_dump grandview_retirement_residence \<rparr>"
    by (simp add: digit_char_def)
  with n e a show ?thesis by blast
qed


text \<open>A falsy argument leaves the query as it is.\<close>

lemma set_if_truthy_empty: "set_if_truthy query k (Some []) = set_if_truthy query k None"
  by (simp add: set_if_truthy_def)

lemma set_if_truthy_None: "set_if_truthy query k None = query"
  by (simp add: set_if_truthy_def)

lemma set_if_truthy_other: "k \<noteq> k' \<Longrightarrow> set_if_truthy query k' v k = query k"
  by (simp add: set_if_truthy_def split: option.split)

lemma list_query_empty:
  "list_query (Some []) b c d e f = list_query None b c d e f"
  "list_query a (Some []) c d e f = list_query a None c d e f"
  "list_query a b (Some []) d e f = list_query a b None d e f"
  "list_query a b c (Some []) e f = list_query a b c None e f"
  "list_query a b c d (Some []) f = list_query a b c d None f"
  "list_query a b c d e (Some []) = list_query a b c d e None"
  by (simp_all only: list_query_def Let_def set_if_truthy_empty)

lemma list_query_unset:
  "list_query None b c d e f ''category'' = None"
  "list_query a None c d e f ''development_type'' = None"
  "list_query a b None d e f ''commercial_type'' = None"
  "list_query a b c None e f ''hospitality_type'' = None"
  "list_query a b c d None f ''city'' = None"
  "list_query a b c d e None ''status'' = None"
  by (simp_all add: list_query_def Let_def set_if_truthy_other set_if_truthy_None)

text \<open>
  C10. In the list operation a filter parameter given as the empty string is treated as
  an absent one: the query built is the same, it has no entry under the parameter's
  key, and the Listings returned are the same.
\<close>

theorem list_empty_filter_unset:
  "(list_query (Some []) b c d e f = list_query None b c d e f \<and>
    list_query (Some []) b c d e f ''category'' = None \<and>
    list_properties db (Some []) b c d e f limit = list_properties db None b c d e f limit) \<and>
   (list_query a (Some []) c d e f = list_query a None c d e f \<and>
    list_query a (Some []) c d e f ''development_type'' = None \<and>
    list_properties db a (Some []) c d e f limit = list_properties db a None c d e f limit) \<and>
   (list_query a b (Some []) d e f = list_query a b None d e f \<and>
    list_query a b (Some []) d e f ''commercial_type'' = None \<and>
    list_properties db a b (Some []) d e f limit = list_properties db a b None d e f limit) \<and>
   (list_query a b c (Some []) e f = list_query a b c None e f \<and>
    list_query a b c (Some []) e f ''hospitality_type'' = None \<and>
    list_properties db a b c (Some []) e f limit = list_properties db a b c None e f limit) \<and>
   (list_query a b c d (Some []) f = list_query a b c d None f \<and>
    list_query a b c d (Some []) f ''city'' = None \<and>
    list_properties db a b c d (Some []) f limit = list_properties db a b c d None f limit) \<and>
   (list_query a b c d e (Some []) = list_query a b c d e None \<and>
    list_query a b c d e (Some []) ''status'' = None \<and>
    list_properties db a b c d e (Some []) limit = list_properties db a b c d e None limit)"
  by (simp only: list_query_empty list_query_unset list_properties_def Let_def simp_thms)

theorem list_empty_filter_unset_witness:
  "list_properties store_b (Some []) None None None None None 50 =
     list_properties store_b None None None None None None 50 \<and>
   map json_id (list_properties store_b (Some []) None None None None None 50) = [''3'', ''7'']"
proof -
  have q: "list_query None None None None None None = Map.empty"
    by (simp add: list_query_def set_if_truthy_def)
  have "map json_id (list_properties store_b None None None None None None 50) = [''3'', ''7'']"
    by (simp add: list_properties_def q get_documents_def matches_def filter_keys_def
          store_b_def with_id_def digit_char_def)
  with list_empty_filter_unset [of None None None None None store_b 50]
  show ?thesis by simp
qed

text \<open>The loop of the seeder appends one document per sample, in order.\<close>

lemma create_all_fields:
  "map stored_fields (docs (create_all db ps)) =
     map stored_fields (docs db) @ map model_dump ps"
  by (induction ps arbitrary: db) (simp_all add: create_document_def Let_def)

lemma samples_slugs:
  "map slug samples = [''isherwood-plaza'', ''riverside-towers'',
                       ''isherwood-industrial-park'', ''grandview-retirement-residence'']"
  by (simp add: samples_def isherwood_plaza_def riverside_towers_def
        isherwood_industrial_park_def grandview_retirement_residence_def)

lemma samples_categories:
  "map category samples = [commercial, development, commercial, hospitality]"
  by (simp add: samples_def isherwood_plaza_def riverside_towers_def
        isherwood_industrial_park_def grandview_retirement_residence_def)

text \<open>
  C3, as the code has it. On an empty collection the seeder inserts exactly the four
  hard-coded Listings, in order, and reports count 4; their slugs are distinct and their
  categories are commercial, development, commercial and hospitality. On a non-empty
  collection it leaves the store as it is and reports the number of documents.
\<close>

theorem seed_demo_gate:
  "(docs db = [] \<longrightarrow>
      fst (seed_demo db) = (''Seeded demo properties'', 4) \<and>
      map stored_fields (docs (snd (seed_demo db))) =
        [model_dump isherwood_plaza, model_dump riverside_towers,
         model_dump isherwood_industrial_park, model_dump grandview_retirement_residence] \<and>
      distinct (map slug samples) \<and>
      map category samples = [commercial, development, commercial, hospitality]) \<and>
   (docs db \<noteq> [] \<longrightarrow>
      seed_demo db = ((''Collection already seeded'', length (docs db)), db))"
proof (intro conjI impI)
  assume e: "docs db = []"
  show "fst (seed_demo db) = (''Seeded demo properties'', 4)"
    using e by (simp add: seed_demo_def count_documents_def samples_def)
  have "map stored_fields (docs (snd (seed_demo db))) = map model_dump samples"
    using e by (simp add: seed_demo_def count_documents_def create_all_fields)
  then show "map stored_fields (docs (snd (seed_demo db))) =
        [model_dump isherwood_plaza, model_dump riverside_towers,
         model_dump isherwood_industrial_park, model_dump grandview_retirement_residence]"
    by (simp add: samples_def)
  show "distinct (map slug samples)"
    by (simp add: samples_slugs)
  show "map category samples = [commercial, development, commercial, hospitality]"
    by (rule samples_categories)
next
  assume "docs db \<noteq> []"
  then show "seed_demo db = ((''Collection already seeded'', length (docs db)), db)"
    by (simp add: seed_demo_def count_documents_def)
qed

theorem seed_demo_gate_witness:
  "(docs empty_store = [] \<and>
    fst (seed_demo empty_store) = (''Seeded demo properties'', 4) \<and>
    length (docs (snd (seed_demo empty_store))) = 4) \<and>
   (docs store_a \<noteq> [] \<and>
    seed_demo store_a = ((''Collection already seeded'', 1), store_a))"
proof -
  have e: "docs empty_store = []" by (simp add: empty_store_def)
  have n: "docs store_a \<noteq> []" by (simp add: store_a_def)
  have l: "length (docs store_a) = 1" by (simp add: store_a_def)
  from seed_demo_gate [of empty_store] e
  have a: "fst (seed_demo empty_store) = (''Seeded demo properties'', 4)"
    and m: "map stored_fields (docs (snd (seed_demo empty_store))) =
        [model_dump isherwood_plaza, model_dump riverside_towers,
         model_dump isherwood_industrial_park, model_dump grandview_retirement_residence]"
    by blast+
  from m have "length (map stored_fields (docs (snd (seed_demo empty_store)))) = 4"
    by simp
  then have b: "length (docs (snd (seed_demo empty_store))) = 4" by simp
  from seed_demo_gate [of store_a] n l
  have c: "seed_demo store_a = ((''Collection already seeded'', 1), store_a)"
    by simp
  from e a b n c show ?thesis by blast
qed

text \<open>
  C3 as stated fails: the four Listings inserted into an empty collection have only
  three distinct categories, commercial being the category of two of them.
\<close>

theorem seed_demo_gate_counterexample:
  "map doc_category (map stored_fields (docs (snd (seed_demo empty_store)))) =
     [Some ''commercial'', Some ''development'', Some ''commercial'', Some ''hospitality''] \<and>
   \<not> distinct (map category samples)"
proof -
  have "map stored_fields (docs (snd (seed_demo empty_store))) = map model_dump samples"
    by (simp add: seed_demo_def count_documents_def create_all_fields empty_store_def)
  then have "map doc_category (map stored_fields (docs (snd (seed_demo empty_store)))) =
      map (\<lambda>p. Some (category_str (category p))) samples"
    by (simp add: model_dump_def comp_def)
  also have "\<dots> = map (\<lambda>c. Some (category_str c)) (map category samples)"
    by (simp add: comp_def)
  also have "\<dots> = [Some ''commercial'', Some ''development'', Some ''commercial'',
                    Some ''hospitality'']"
    by (simp add: samples_categories)
  finally show ?thesis by (simp add: samples_categories)
qed


end
